theory Spec2Isabelle
  imports Main "HOL-Library.Word" "HOL-Library.Sublist"
begin

unbundle bit_operations_syntax

section \<open>Go values\<close>

text \<open>
  A Go \<^verbatim>\<open>string\<close> is a sequence of bytes; it is modelled by \<^typ>\<open>string\<close>, whose
  characters are exactly the 256 byte values. A \<^verbatim>\<open>[]byte\<close> that is hashed is a list
  of 8-bit words, and \<^verbatim>\<open>[]byte(s)\<close> converts one into the other byte by byte.
\<close>

type_synonym byte = "8 word"

definition bytes_of :: "string \<Rightarrow> byte list" where
  "bytes_of s = map of_char s"

section \<open>The library functions behind \<^verbatim>\<open>computeHmac1\<close>\<close>

subsection \<open>\<^verbatim>\<open>crypto/sha1\<close>\<close>

text \<open>
  SHA-1 on 32-bit words: the message is padded with \<^verbatim>\<open>0x80\<close>, zeros up to 56 bytes
  modulo 64, and the bit length as a big-endian 64-bit integer; each 64-byte chunk is
  read as 16 big-endian words, extended to 80 words and run through 80 rounds; the
  digest is the five state words, big-endian.
\<close>

definition rotl32 :: "nat \<Rightarrow> 32 word \<Rightarrow> 32 word" where
  "rotl32 n w = push_bit n w OR drop_bit (32 - n) w"

definition be32 :: "byte list \<Rightarrow> 32 word" where
  "be32 p = push_bit 24 (ucast (p ! 0)) OR push_bit 16 (ucast (p ! 1))
            OR push_bit 8 (ucast (p ! 2)) OR ucast (p ! 3)"

fun sha1_words :: "nat \<Rightarrow> byte list \<Rightarrow> 32 word list" where
  "sha1_words 0 p = []"
| "sha1_words (Suc n) p = be32 (take 4 p) # sha1_words n (drop 4 p)"

text \<open>The schedule is kept newest word first, so \<open>w[t-3]\<close> is at index 2.\<close>

fun sha1_expand :: "nat \<Rightarrow> 32 word list \<Rightarrow> 32 word list" where
  "sha1_expand 0 ws = ws"
| "sha1_expand (Suc n) ws =
     sha1_expand n (rotl32 1 (ws ! 2 XOR ws ! 7 XOR ws ! 13 XOR ws ! 15) # ws)"

definition sha1_f :: "nat \<Rightarrow> 32 word \<Rightarrow> 32 word \<Rightarrow> 32 word \<Rightarrow> 32 word" where
  "sha1_f t b c d =
     (if t < 20 then (b AND c) OR (NOT b AND d)
      else if t < 40 then b XOR c XOR d
      else if t < 60 then ((b OR c) AND d) OR (b AND c)
      else b XOR c XOR d)"

definition sha1_K :: "nat \<Rightarrow> 32 word" where
  "sha1_K t =
     (if t < 20 then 0x5A827999
      else if t < 40 then 0x6ED9EBA1
      else if t < 60 then 0x8F1BBCDC
      else 0xCA62C1D6)"

type_synonym sha1_state = "32 word \<times> 32 word \<times> 32 word \<times> 32 word \<times> 32 word"

fun sha1_rounds :: "nat \<Rightarrow> 32 word list \<Rightarrow> sha1_state \<Rightarrow> sha1_state" where
  "sha1_rounds t [] st = st"
| "sha1_rounds t (w # ws) (a, b, c, d, e) =
     sha1_rounds (Suc t) ws
       (rotl32 5 a + sha1_f t b c d + e + w + sha1_K t, a, rotl32 30 b, c, d)"

definition sha1_block :: "sha1_state \<Rightarrow> byte list \<Rightarrow> sha1_state" where
  "sha1_block h p =
     (case h of (h0, h1, h2, h3, h4) \<Rightarrow>
        (case sha1_rounds 0 (rev (sha1_expand 64 (rev (sha1_words 16 p)))) h of
           (a, b, c, d, e) \<Rightarrow> (h0 + a, h1 + b, h2 + c, h3 + d, h4 + e)))"

fun sha1_blocks :: "sha1_state \<Rightarrow> byte list \<Rightarrow> sha1_state" where
  "sha1_blocks h p =
     (if length p < 64 then h else sha1_blocks (sha1_block h (take 64 p)) (drop 64 p))"

declare sha1_blocks.simps [simp del]

definition put32 :: "32 word \<Rightarrow> byte list" where
  "put32 w = [ucast (drop_bit 24 w), ucast (drop_bit 16 w), ucast (drop_bit 8 w), ucast w]"

definition put64 :: "64 word \<Rightarrow> byte list" where
  "put64 w = map (\<lambda>i. ucast (drop_bit (8 * (7 - i)) w)) [0..<8]"

text \<open>The length is a \<^verbatim>\<open>uint64\<close> count of bytes; \<^verbatim>\<open>len <<= 3\<close> wraps at 64 bits.\<close>

definition sha1_padding :: "nat \<Rightarrow> byte list" where
  "sha1_padding len =
     (let t = (if len mod 64 < 56 then 56 - len mod 64 else 64 + 56 - len mod 64)
      in 0x80 # replicate (t - 1) 0 @ put64 (push_bit 3 (of_nat len)))"

definition sha1_init :: sha1_state where
  "sha1_init = (0x67452301, 0xEFCDAB89, 0x98BADCFE, 0x10325476, 0xC3D2E1F0)"

definition sha1_Sum :: "byte list \<Rightarrow> byte list" where
  "sha1_Sum msg =
     (case sha1_blocks sha1_init (msg @ sha1_padding (length msg)) of
        (h0, h1, h2, h3, h4) \<Rightarrow> put32 h0 @ put32 h1 @ put32 h2 @ put32 h3 @ put32 h4)"

subsection \<open>\<^verbatim>\<open>crypto/hmac\<close>\<close>

text \<open>
  The keyed hash object of \<^verbatim>\<open>hmac.New(sha1.New, key)\<close>. A SHA-1 hash object is
  represented by the bytes written to it so far; its \<^verbatim>\<open>Sum(nil)\<close> is \<open>sha1_Sum\<close> of
  them. \<^verbatim>\<open>New\<close> hashes a key longer than the block size through the outer hash,
  fills both pads with the key, XORs them with \<^verbatim>\<open>0x36\<close> and \<^verbatim>\<open>0x5c\<close>, and writes the
  inner pad to the inner hash. \<^verbatim>\<open>Sum\<close> resets the outer hash and writes the outer pad
  and the inner digest to it.
\<close>

record hmac =
  opad :: "byte list"
  ipad :: "byte list"
  outer :: "byte list"
  inner :: "byte list"

definition copy_into :: "byte list \<Rightarrow> byte list \<Rightarrow> byte list" where
  \<comment> \<open>\<^verbatim>\<open>copy(dst, src)\<close>: the first \<open>min (len dst) (len src)\<close> bytes are overwritten\<close>
  "copy_into dst src = take (length dst) src @ drop (length src) dst"

definition hmac_New :: "byte list \<Rightarrow> hmac" where
  "hmac_New key =
     (let blocksize = 64;
          outer0 = (if length key > blocksize then key else []);
          key1 = (if length key > blocksize then sha1_Sum key else key);
          ipad0 = copy_into (replicate blocksize 0) key1;
          opad0 = copy_into (replicate blocksize 0) key1;
          ipad1 = map (\<lambda>b. b XOR 0x36) ipad0;
          opad1 = map (\<lambda>b. b XOR 0x5c) opad0
      in \<lparr>opad = opad1, ipad = ipad1, outer = outer0, inner = ipad1\<rparr>)"

definition hmac_Write :: "hmac \<Rightarrow> byte list \<Rightarrow> hmac" where
  "hmac_Write h p = h\<lparr>inner := inner h @ p\<rparr>"

definition hmac_Sum :: "hmac \<Rightarrow> byte list" where
  "hmac_Sum h =
     (let digest = sha1_Sum (inner h);
          outer1 = opad h @ digest
      in sha1_Sum outer1)"

subsection \<open>\<^verbatim>\<open>encoding/hex\<close>\<close>

definition hextable :: string where
  "hextable = ''0123456789abcdef''"

primrec hex_EncodeToString :: "byte list \<Rightarrow> string" where
  "hex_EncodeToString [] = []"
| "hex_EncodeToString (v # src) =
     hextable ! unat (drop_bit 4 v) # hextable ! unat (v AND 0x0f) # hex_EncodeToString src"

section \<open>The client\<close>

text \<open>
  \<^verbatim>\<open>type Client struct\<close>. The field \<open>Client\<close> is a pointer to an \<^verbatim>\<open>http.Client\<close>:
  \<open>None\<close> is nil, \<open>Some a\<close> the object at address \<open>a\<close>. \<open>BaseUrl\<close> holds the parsed
  URL that \<^verbatim>\<open>*url.URL\<close> points to; the type \<open>'u\<close> of parsed URLs belongs to
  \<^verbatim>\<open>net/url\<close> and is a parameter.
\<close>

record 'u Client =
  BotUsername :: string
  ApiKey :: string
  Client :: "nat option"
  BaseUrl :: 'u

text \<open>
  A method with receiver \<^verbatim>\<open>k *Client\<close> runs on a state: \<open>self\<close> is the struct that
  \<open>k\<close> points to, \<open>world\<close> is everything a call can reach outside of it (the remote
  API behind the transport). A method returns its results and the state it leaves.
\<close>

record ('u, 'w) state =
  self :: "'u Client"
  world :: 'w

subsection \<open>\<^verbatim>\<open>computeHmac1\<close> and \<^verbatim>\<open>VerifySignature\<close>\<close>

definition computeHmac1 :: "byte list \<Rightarrow> string \<Rightarrow> string" where
  "computeHmac1 message secret =
     (let key = bytes_of secret;
          h = hmac_New key;
          h = hmac_Write h message
      in hex_EncodeToString (hmac_Sum h))"

definition VerifySignature ::
  "string \<Rightarrow> byte list \<Rightarrow> ('u, 'w) state \<Rightarrow> bool \<times> ('u, 'w) state" where
  "VerifySignature signature body s =
     (signature = computeHmac1 body (ApiKey (self s)), s)"

subsection \<open>The digest as the specification words it\<close>

text \<open>
  HMAC with SHA-1 as the digest function: the key, hashed first when it is longer
  than one 64-byte block, is padded with zeros to a block; the digest is
  \<open>H ((K xor opad) || H ((K xor ipad) || message))\<close>. The lowercase hexadecimal form
  writes every byte as two digits, high nibble first.
\<close>

definition hmac_key_block :: "byte list \<Rightarrow> byte list" where
  "hmac_key_block key =
     (let k = (if 64 < length key then sha1_Sum key else key)
      in k @ replicate (64 - length k) 0)"

definition hmac_sha1 :: "byte list \<Rightarrow> byte list \<Rightarrow> byte list" where
  "hmac_sha1 key msg =
     sha1_Sum (map (\<lambda>b. b XOR 0x5c) (hmac_key_block key)
               @ sha1_Sum (map (\<lambda>b. b XOR 0x36) (hmac_key_block key) @ msg))"

definition lower_hex :: "byte list \<Rightarrow> string" where
  "lower_hex bs =
     concat (map (\<lambda>b. [''0123456789abcdef'' ! (unat b div 16),
                         ''0123456789abcdef'' ! (unat b mod 16)]) bs)"

definition hmac_sha1_hex :: "byte list \<Rightarrow> string \<Rightarrow> string" where
  "hmac_sha1_hex body key = lower_hex (hmac_sha1 (bytes_of key) body)"

definition is_lower_hex40 :: "string \<Rightarrow> bool" where
  "is_lower_hex40 s = (length s = 40 \<and> list_all (\<lambda>c. c \<in> set hextable) s)"

section \<open>Errors\<close>

text \<open>
  Go's \<^verbatim>\<open>error\<close> values. \<open>Errorf\<close> is the value of \<^verbatim>\<open>fmt.Errorf\<close>, by its formatted
  message; \<open>Foreign\<close> is an error made outside this package (by \<^verbatim>\<open>net/url\<close>, by the
  JSON encoder or decoder, by the transport), by its message. The other four are the
  kinds the request builder and the executor produce.
\<close>

datatype error =
    Errorf string
  | Foreign string
  | EncodeError error
  | TransportError error
  | StatusError int string
  | DecodeError error

section \<open>The constructor\<close>

definition HasSuffix :: "string \<Rightarrow> string \<Rightarrow> bool" where
  \<comment> \<open>\<^verbatim>\<open>strings.HasSuffix\<close>\<close>
  "HasSuffix s suf =
     (length suf \<le> length s \<and> drop (length s - length suf) s = suf)"

text \<open>
  The \<^verbatim>\<open>http.Client\<close> objects live in a store, a list indexed by address.
  \<^verbatim>\<open>&http.Client{}\<close> allocates the zero struct at the next address.
\<close>

record http_Client =
  Transport :: "nat option"
  CheckRedirect :: "nat option"
  Jar :: "nat option"
  Timeout :: int

definition http_Client_zero :: http_Client where
  "http_Client_zero = \<lparr>Transport = None, CheckRedirect = None, Jar = None, Timeout = 0\<rparr>"

text \<open>
  \<^verbatim>\<open>NewKikClient\<close> returns the pair \<^verbatim>\<open>(*Client, error)\<close> and the store it leaves.
  \<^verbatim>\<open>url.Parse\<close> is the parameter \<open>url_Parse\<close>.
\<close>

definition NewKikClient ::
  "(string \<Rightarrow> error + 'u) \<Rightarrow> string \<Rightarrow> string \<Rightarrow> string \<Rightarrow> nat option \<Rightarrow> http_Client list
     \<Rightarrow> ('u Client option \<times> error option) \<times> http_Client list" where
  "NewKikClient url_Parse baseUrl botUsername apiKey httpClient heap =
     (let (httpClient1, heap1) =
            (if httpClient = None then (Some (length heap), heap @ [http_Client_zero])
             else (httpClient, heap))
      in if \<not> HasSuffix baseUrl ''/''
         then ((None, Some (Errorf (''BaseURL must have a trailing slash, but '' @ baseUrl
                                     @ '' does not''))), heap1)
         else (case url_Parse baseUrl of
                 Inl err \<Rightarrow> ((None, Some err), heap1)
               | Inr baseUrlParsed \<Rightarrow>
                   ((Some \<lparr>BotUsername = botUsername, ApiKey = apiKey,
                            Client = httpClient1, BaseUrl = baseUrlParsed\<rparr>, None), heap1)))"

section \<open>Requests\<close>

definition GetUserUrl :: string where "GetUserUrl = ''/v1/user/''"
definition SendMessageUrl :: string where "SendMessageUrl = ''/v1/message''"
definition BroadcastUrl :: string where "BroadcastUrl = ''/v1/broadcast''"
definition ConfigtUrl :: string where "ConfigtUrl = ''/v1/config''"
definition CodeUrl :: string where "CodeUrl = ''/v1/code''"

text \<open>
  What the methods use of an \<^verbatim>\<open>http.Request\<close>: the header is a map from a key to its
  list of values, the body is absent or a byte string. A response is its status code
  and its body.
\<close>

record Request =
  Method :: string
  URL :: string
  Header :: "string \<Rightarrow> string list option"
  Body :: "string option"

record Response =
  StatusCode :: int
  ResponseBody :: string

subsection \<open>\<^verbatim>\<open>SetBasicAuth\<close>\<close>

definition encodeStd :: string where
  "encodeStd = ''ABCDEFGHIJKLMNOPQRSTUVWXYZabcdefghijklmnopqrstuvwxyz0123456789+/''"

definition b64 :: "32 word \<Rightarrow> nat \<Rightarrow> char" where
  "b64 val n = encodeStd ! unat (drop_bit n val AND 0x3F)"

fun base64_EncodeToString :: "byte list \<Rightarrow> string" where
  "base64_EncodeToString (a # b # c # src) =
     (let val = push_bit 16 (ucast a) OR push_bit 8 (ucast b) OR ucast c
      in b64 val 18 # b64 val 12 # b64 val 6 # b64 val 0 # base64_EncodeToString src)"
| "base64_EncodeToString [a, b] =
     (let val = push_bit 16 (ucast a) OR push_bit 8 (ucast b)
      in [b64 val 18, b64 val 12, b64 val 6, CHR ''=''])"
| "base64_EncodeToString [a] =
     (let val = push_bit 16 (ucast a)
      in [b64 val 18, b64 val 12, CHR ''='', CHR ''=''])"
| "base64_EncodeToString [] = []"

definition basicAuth :: "string \<Rightarrow> string \<Rightarrow> string" where
  "basicAuth username password =
     (let auth = username @ '':'' @ password
      in base64_EncodeToString (bytes_of auth))"

definition SetBasicAuth :: "Request \<Rightarrow> string \<Rightarrow> string \<Rightarrow> Request" where
  "SetBasicAuth r username password =
     r\<lparr>Header := (Header r)(''Authorization'' \<mapsto> [''Basic '' @ basicAuth username password])\<rparr>"

subsection \<open>Payloads and decode targets\<close>

text \<open>
  The data types \<^verbatim>\<open>Configuration\<close>, \<^verbatim>\<open>Message\<close>, \<^verbatim>\<open>ScanData\<close>, \<^verbatim>\<open>User\<close> and \<^verbatim>\<open>Code\<close>
  are declared in another file of the package; they are the type parameters \<open>'c\<close>,
  \<open>'m\<close>, \<open>'s\<close>, \<open>'r\<close> and \<open>'d\<close>. A pointer is \<open>None\<close> when nil. A slice is \<open>None\<close> when
  nil and \<open>Some xs\<close> otherwise, so that the nil slice and the empty slice differ.
  \<^verbatim>\<open>Messages{messages}\<close> is a struct of one field that holds the slice.
\<close>

datatype 'm Messages = Messages "'m list option"

text \<open>The values the methods pass as \<^verbatim>\<open>interface{}\<close> to the request builder.\<close>

datatype ('c, 'm, 's) payload =
    ConfigurationPtr "'c option"
  | MessagesVal "'m Messages"
  | ScanDataPtr "'s option"

text \<open>
  The variables whose address the methods pass to the executor, with their content:
  \<^verbatim>\<open>&c\<close> for a pointer \<open>c\<close>, \<^verbatim>\<open>&config\<close>, \<^verbatim>\<open>&user\<close> and \<^verbatim>\<open>&code\<close>.
\<close>

datatype ('c, 'r, 'd) target =
    ConfigurationPtrVar "'c option"
  | ConfigurationVar 'c
  | UserVar 'r
  | CodeVar 'd

section \<open>The methods\<close>

text \<open>
  The helpers \<^verbatim>\<open>k.newRequest\<close> and \<^verbatim>\<open>k.do\<close> are defined in another file of the
  package. Every method takes them as parameters: the builder \<open>nr\<close> maps the client,
  a method, a relative path and a payload (\<open>None\<close> for nil) to a request or an
  error; the executor \<open>d\<close> takes a request and the decode target (\<open>None\<close> for nil)
  and returns, on a state, an error (\<open>None\<close> for nil) and the content it leaves in
  the target. The zero value of a variable declared by \<^verbatim>\<open>var\<close> is a parameter as well.
  A method that returns a pair returns \<open>(result, error)\<close> with \<open>None\<close> for nil.
\<close>

type_synonym ('u, 'c, 'm, 's) builder =
  "'u Client \<Rightarrow> string \<Rightarrow> string \<Rightarrow> ('c, 'm, 's) payload option \<Rightarrow> error + Request"

type_synonym ('u, 'w, 't) executor =
  "Request \<Rightarrow> 't option \<Rightarrow> ('u, 'w) state \<Rightarrow> (error option \<times> 't option) \<times> ('u, 'w) state"

definition SetConfiguration ::
  "('u, 'c, 'm, 's) builder \<Rightarrow> ('u, 'w, ('c, 'r, 'd) target) executor \<Rightarrow> 'c option
     \<Rightarrow> ('u, 'w) state \<Rightarrow> (error option \<times> 'c option) \<times> ('u, 'w) state" where
  \<comment> \<open>the second result is the content of \<open>c\<close> after the call\<close>
  "SetConfiguration nr d c s =
     (case nr (self s) ''POST'' ConfigtUrl (Some (ConfigurationPtr c)) of
        Inl err \<Rightarrow> ((Some err, c), s)
      | Inr req \<Rightarrow>
          (case d (SetBasicAuth req (BotUsername (self s)) (ApiKey (self s)))
                  (Some (ConfigurationPtrVar c)) s of
             ((err, t), s1) \<Rightarrow>
               (let c1 = (case t of Some (ConfigurationPtrVar c') \<Rightarrow> c' | _ \<Rightarrow> c)
                in (case err of Some e \<Rightarrow> ((Some e, c1), s1) | None \<Rightarrow> ((None, c1), s1)))))"

definition GetConfiguration ::
  "('u, 'c, 'm, 's) builder \<Rightarrow> ('u, 'w, ('c, 'r, 'd) target) executor \<Rightarrow> 'c
     \<Rightarrow> ('u, 'w) state \<Rightarrow> ('c option \<times> error option) \<times> ('u, 'w) state" where
  "GetConfiguration nr d zero s =
     (case nr (self s) ''GET'' ConfigtUrl None of
        Inl err \<Rightarrow> ((None, Some err), s)
      | Inr req \<Rightarrow>
          (case d (SetBasicAuth req (BotUsername (self s)) (ApiKey (self s)))
                  (Some (ConfigurationVar zero)) s of
             ((err, t), s1) \<Rightarrow>
               (let config = (case t of Some (ConfigurationVar v) \<Rightarrow> v | _ \<Rightarrow> zero)
                in (case err of Some e \<Rightarrow> ((None, Some e), s1)
                    | None \<Rightarrow> ((Some config, None), s1)))))"

definition SendMessage ::
  "('u, 'c, 'm, 's) builder \<Rightarrow> ('u, 'w, ('c, 'r, 'd) target) executor \<Rightarrow> 'm list option
     \<Rightarrow> ('u, 'w) state \<Rightarrow> error option \<times> ('u, 'w) state" where
  "SendMessage nr d messages s =
     (let payload = Messages messages
      in case nr (self s) ''POST'' SendMessageUrl (Some (MessagesVal payload)) of
           Inl err \<Rightarrow> (Some err, s)
         | Inr req \<Rightarrow>
             (case d (SetBasicAuth req (BotUsername (self s)) (ApiKey (self s))) None s of
                ((err, t), s1) \<Rightarrow> (err, s1)))"

definition BroadcastMessage ::
  "('u, 'c, 'm, 's) builder \<Rightarrow> ('u, 'w, ('c, 'r, 'd) target) executor \<Rightarrow> 'm list option
     \<Rightarrow> ('u, 'w) state \<Rightarrow> error option \<times> ('u, 'w) state" where
  "BroadcastMessage nr d messages s =
     (let payload = Messages messages
      in case nr (self s) ''POST'' BroadcastUrl (Some (MessagesVal payload)) of
           Inl err \<Rightarrow> (Some err, s)
         | Inr req \<Rightarrow>
             (case d (SetBasicAuth req (BotUsername (self s)) (ApiKey (self s))) None s of
                ((err, t), s1) \<Rightarrow> (err, s1)))"

definition GetUser ::
  "('u, 'c, 'm, 's) builder \<Rightarrow> ('u, 'w, ('c, 'r, 'd) target) executor \<Rightarrow> 'r \<Rightarrow> string
     \<Rightarrow> ('u, 'w) state \<Rightarrow> ('r option \<times> error option) \<times> ('u, 'w) state" where
  "GetUser nr d zero username s =
     (case nr (self s) ''GET'' (GetUserUrl @ username) None of
        Inl err \<Rightarrow> ((None, Some err), s)
      | Inr req \<Rightarrow>
          (case d (SetBasicAuth req (BotUsername (self s)) (ApiKey (self s)))
                  (Some (UserVar zero)) s of
             ((err, t), s1) \<Rightarrow>
               (let user = (case t of Some (UserVar v) \<Rightarrow> v | _ \<Rightarrow> zero)
                in (case err of Some e \<Rightarrow> ((None, Some e), s1)
                    | None \<Rightarrow> ((Some user, None), s1)))))"

definition CreateCode ::
  "('u, 'c, 'm, 's) builder \<Rightarrow> ('u, 'w, ('c, 'r, 'd) target) executor \<Rightarrow> 'd \<Rightarrow> 's option
     \<Rightarrow> ('u, 'w) state \<Rightarrow> ('d option \<times> error option) \<times> ('u, 'w) state" where
  "CreateCode nr d zero sd s =
     (case nr (self s) ''POST'' CodeUrl (Some (ScanDataPtr sd)) of
        Inl err \<Rightarrow> ((None, Some err), s)
      | Inr req \<Rightarrow>
          (case d (SetBasicAuth req (BotUsername (self s)) (ApiKey (self s)))
                  (Some (CodeVar zero)) s of
             ((err, t), s1) \<Rightarrow>
               (let code = (case t of Some (CodeVar v) \<Rightarrow> v | _ \<Rightarrow> zero)
                in (case err of Some e \<Rightarrow> ((None, Some e), s1)
                    | None \<Rightarrow> ((Some code, None), s1)))))"

subsection \<open>Observing the executor\<close>

text \<open>
  \<open>recording d\<close> behaves as the executor \<open>d\<close> and appends every request it is handed
  to a log kept beside the world of \<open>d\<close>. The requests a method submits are the
  requests it hands to its executor.
\<close>

definition recording ::
  "('u, 'w, 't) executor \<Rightarrow> ('u, 'w \<times> Request list, 't) executor" where
  "recording d req t s =
     (case d req t \<lparr>self = self s, world = fst (world s)\<rparr> of
        (r, s1) \<Rightarrow> (r, \<lparr>self = self s1, world = (world s1, snd (world s) @ [req])\<rparr>))"

definition submitted :: "('u, 'w \<times> Request list) state \<Rightarrow> Request list" where
  "submitted s = snd (world s)"

definition basic_auth_header :: "'u Client \<Rightarrow> string list" where
  "basic_auth_header k =
     [''Basic '' @ base64_EncodeToString (bytes_of (BotUsername k @ '':'' @ ApiKey k))]"

definition carries_basic_auth :: "'u Client \<Rightarrow> Request \<Rightarrow> bool" where
  "carries_basic_auth k req = (Header req ''Authorization'' = Some (basic_auth_header k))"

definition new_requests ::
  "('u, 'w \<times> Request list) state \<Rightarrow> ('u, 'w \<times> Request list) state \<Rightarrow> Request list" where
  \<comment> \<open>the requests logged between the state \<open>s\<close> and the later state \<open>s'\<close>\<close>
  "new_requests s s' = drop (length (submitted s)) (submitted s')"

section \<open>The helpers as the specification words them\<close>

text \<open>
  Modelled from the spec: the method \<^verbatim>\<open>newRequest\<close> of the client, which is not in
  the file that holds the methods above. The request builder of the specification:
  the relative path is appended verbatim to the base URL; a payload that is present
  is serialized to JSON, and a failure to serialize is an \<open>EncodeError\<close> carrying
  the cause; an absent payload gives a request without a body. The specification
  names no header that the builder sets. The string form of the base URL and the
  JSON encoder are the parameters \<open>url_String\<close> and \<open>encode\<close>.
\<close>

definition newRequest ::
  "('u \<Rightarrow> string) \<Rightarrow> ('p \<Rightarrow> error + string) \<Rightarrow> 'u Client \<Rightarrow> string \<Rightarrow> string \<Rightarrow> 'p option
     \<Rightarrow> error + Request" where
  "newRequest url_String encode k method relativePath payload =
     (case payload of
        None \<Rightarrow>
          Inr \<lparr>Method = method, URL = url_String (BaseUrl k) @ relativePath,
               Header = Map.empty, Body = None\<rparr>
      | Some p \<Rightarrow>
          (case encode p of
             Inl cause \<Rightarrow> Inl (EncodeError cause)
           | Inr b \<Rightarrow>
               Inr \<lparr>Method = method, URL = url_String (BaseUrl k) @ relativePath,
                    Header = Map.empty, Body = Some b\<rparr>))"

text \<open>
  Modelled from the spec: the message list of a \<^verbatim>\<open>Messages\<close> value, whose type
  declaration is not in the file that holds the methods. The specification speaks
  of a list of messages and does not tell a nil slice from an empty one: both hold
  no message.
\<close>

definition message_list :: "'m Messages \<Rightarrow> 'm list" where
  "message_list payload = (case payload of Messages None \<Rightarrow> [] | Messages (Some ms) \<Rightarrow> ms)"

text \<open>
  Modelled from the spec: the encoding of the messages of the list, one by one; a
  message that cannot be encoded fails the whole encoding. The encoder of one
  message is the parameter \<open>enc\<close>.
\<close>

fun json_elements :: "('m \<Rightarrow> error + string) \<Rightarrow> 'm list \<Rightarrow> error + string list" where
  "json_elements enc [] = Inr []"
| "json_elements enc (m # ms) =
     (case enc m of
        Inl cause \<Rightarrow> Inl cause
      | Inr j \<Rightarrow> (case json_elements enc ms of Inl cause \<Rightarrow> Inl cause | Inr js \<Rightarrow> Inr (j # js)))"

text \<open>
  Modelled from the spec: the separator of the elements of the \<open>messages\<close> list
  in the JSON body.
\<close>

fun join_commas :: "string list \<Rightarrow> string" where
  "join_commas [] = []"
| "join_commas [j] = j"
| "join_commas (j # js) = j @ '','' @ join_commas js"

text \<open>
  Modelled from the spec: the body \<^verbatim>\<open>{ "messages": [...] }\<close> of the specification, for
  a \<^verbatim>\<open>Messages\<close> value: the object with the one key \<open>messages\<close> and the encoded
  messages of the list between brackets.
\<close>

definition json_Messages :: "('m \<Rightarrow> error + string) \<Rightarrow> 'm Messages \<Rightarrow> error + string" where
  \<open>json_Messages enc payload =
     (case json_elements enc (message_list payload) of
        Inl cause \<Rightarrow> Inl cause
      | Inr js \<Rightarrow> Inr (''{"messages":['' @ join_commas js @ '']}''))\<close>

text \<open>
  Modelled from the spec: the JSON encoder the builder applies to a payload. The
  encoders of a configuration and of scan data, whose types are declared
  elsewhere, are the parameters \<open>enc_c\<close> and \<open>enc_s\<close>.
\<close>

definition json_payload ::
  "('c option \<Rightarrow> error + string) \<Rightarrow> ('m \<Rightarrow> error + string) \<Rightarrow> ('s option \<Rightarrow> error + string)
     \<Rightarrow> ('c, 'm, 's) payload \<Rightarrow> error + string" where
  "json_payload enc_c enc_m enc_s p =
     (case p of
        ConfigurationPtr c \<Rightarrow> enc_c c
      | MessagesVal m \<Rightarrow> json_Messages enc_m m
      | ScanDataPtr sd \<Rightarrow> enc_s sd)"

text \<open>
  Modelled from the spec: the method \<^verbatim>\<open>do\<close> of the client, which is not in the file
  that holds the methods above. The authenticated executor of the specification:
  it submits the request through the transport; a transport failure is a
  \<open>TransportError\<close> wrapping the cause; a status code outside 200..299 is a
  \<open>StatusError\<close> with the code and the raw body; on success a present target is
  decoded into, and a failure to decode is a \<open>DecodeError\<close> wrapping the cause; an
  absent target discards the body. The world is the list of the requests submitted
  so far. The transport (\<^verbatim>\<open>Do\<close> of the \<^verbatim>\<open>http.Client\<close> behind the handle) and the
  JSON decoder are the parameters \<open>transport\<close> and \<open>decode\<close>.
\<close>

definition do ::
  "(nat option \<Rightarrow> Request \<Rightarrow> error + Response) \<Rightarrow> (string \<Rightarrow> 't \<Rightarrow> error + 't)
     \<Rightarrow> ('u, Request list, 't) executor" where
  "do transport decode req target s =
     (let s1 = s\<lparr>world := world s @ [req]\<rparr>
      in case transport (Client (self s)) req of
           Inl cause \<Rightarrow> ((Some (TransportError cause), target), s1)
         | Inr resp \<Rightarrow>
             if \<not> (200 \<le> StatusCode resp \<and> StatusCode resp \<le> 299)
             then ((Some (StatusError (StatusCode resp) (ResponseBody resp)), target), s1)
             else (case target of
                     None \<Rightarrow> ((None, None), s1)
                   | Some t \<Rightarrow>
                       (case decode (ResponseBody resp) t of
                          Inl cause \<Rightarrow> ((Some (DecodeError cause), target), s1)
                        | Inr t1 \<Rightarrow> ((None, Some t1), s1))))"

section \<open>The scenario of the specification\<close>

text \<open>
  Concrete values for the examples below: the client with base URL
  \<^verbatim>\<open>https://api.kik.com/\<close>, bot \<^verbatim>\<open>bot1\<close> and key \<^verbatim>\<open>secret\<close>; a URL is represented by
  its string form, the data types by \<^typ>\<open>unit\<close>, and a user by its name. The
  transport answers 200 with a user in JSON, and the decoder reads it into a user
  variable. One builder is the builder of the specification with an encoder that
  accepts every value, one fails on every payload, and one resolves the relative
  path against the base as \<^verbatim>\<open>ResolveReference\<close> of \<^verbatim>\<open>net/url\<close> does for a rooted path
  and a base whose own path is the root: the path takes the place of the base's.
\<close>

definition scenario_client :: "string Client" where
  "scenario_client =
     \<lparr>BotUsername = ''bot1'', ApiKey = ''secret'', Client = Some 0,
      BaseUrl = ''https://api.kik.com/''\<rparr>"

definition scenario_transport :: "nat option \<Rightarrow> Request \<Rightarrow> error + Response" where
  \<open>scenario_transport h req = Inr \<lparr>StatusCode = 200, ResponseBody = ''{"username":"alice"}''\<rparr>\<close>

definition scenario_decode ::
  "string \<Rightarrow> (unit, string, unit) target \<Rightarrow> error + (unit, string, unit) target" where
  "scenario_decode b t = (case t of UserVar u \<Rightarrow> Inr (UserVar ''alice'') | _ \<Rightarrow> Inr t)"

definition scenario_builder :: "(string, unit, unit, unit) builder" where
  "scenario_builder =
     newRequest (\<lambda>u. u) (json_payload (\<lambda>c. Inr ''{}'') (\<lambda>m. Inr ''{}'') (\<lambda>sd. Inr ''{}''))"

definition failing_builder :: "(string, unit, unit, unit) builder" where
  "failing_builder k method relativePath payload =
     Inl (EncodeError (Foreign ''json: unsupported type''))"


definition scenario_state :: "(string, Request list \<times> Request list) state" where
  "scenario_state = \<lparr>self = scenario_client, world = ([], [])\<rparr>"

section \<open>Properties of the digest\<close>

lemma length_sha1_Sum: "length (sha1_Sum msg) = 20"
  by (simp add: sha1_Sum_def put32_def split: prod.splits)

lemma length_hex_EncodeToString: "length (hex_EncodeToString src) = 2 * length src"
  by (induction src) simp_all

lemma high_nibble: "unat (drop_bit 4 (v :: byte)) = unat v div 16"
  by (simp add: drop_bit_eq_div unat_div)

lemma low_nibble: "unat ((v :: byte) AND 0x0f) = unat v mod 16"
proof -
  have "(15 :: byte) = mask 4"
    by (simp add: mask_eq_exp_minus_1)
  then have "(v AND 0x0f) = take_bit 4 v"
    by (simp add: take_bit_eq_mask)
  then show ?thesis
    by (simp add: take_bit_eq_mod unat_mod)
qed

lemma nibble_bound: "unat (v :: byte) div 16 < 16"
proof -
  have "unat v < 2 ^ LENGTH(8)"
    by (rule unsigned_less)
  then show ?thesis by simp
qed

lemma hex_EncodeToString_lower_hex: "hex_EncodeToString src = lower_hex src"
  by (induction src) (simp_all add: lower_hex_def hextable_def high_nibble low_nibble)

lemma hextable_nth: "n < 16 \<Longrightarrow> hextable ! n \<in> set hextable"
  unfolding hextable_def by (rule nth_mem) simp

lemma set_hex_EncodeToString: "set (hex_EncodeToString src) \<subseteq> set hextable"
proof (induction src)
  case Nil
  then show ?case by simp
next
  case (Cons v src)
  have "hextable ! (unat v div 16) \<in> set hextable"
    by (rule hextable_nth) (rule nibble_bound)
  moreover have "hextable ! (unat v mod 16) \<in> set hextable"
    by (rule hextable_nth) simp
  ultimately show ?case
    using Cons by (simp add: high_nibble low_nibble)
qed

lemma copy_into_zeros:
  "copy_into (replicate 64 0) k = take 64 k @ replicate (64 - length k) 0"
  by (simp add: copy_into_def)

lemma hmac_pad_key: "copy_into (replicate 64 0)
     (if 64 < length key then sha1_Sum key else key) = hmac_key_block key"
  by (simp add: copy_into_zeros hmac_key_block_def length_sha1_Sum Let_def)

lemma computeHmac1_hmac_sha1_hex: "computeHmac1 message secret = hmac_sha1_hex message secret"
  by (simp add: computeHmac1_def hmac_sha1_hex_def hmac_New_def hmac_Write_def hmac_Sum_def
      hmac_sha1_def Let_def hmac_pad_key hex_EncodeToString_lower_hex)

lemma length_computeHmac1: "length (computeHmac1 message secret) = 40"
  by (simp add: computeHmac1_def Let_def hmac_Sum_def length_hex_EncodeToString length_sha1_Sum)

lemma set_computeHmac1: "set (computeHmac1 message secret) \<subseteq> set hextable"
  by (simp add: computeHmac1_def Let_def set_hex_EncodeToString)

lemma is_lower_hex40_computeHmac1: "is_lower_hex40 (computeHmac1 message secret)"
  unfolding is_lower_hex40_def list_all_iff
  using set_computeHmac1 [of message secret] length_computeHmac1 [of message secret]
  by blast

lemma list_update_differs: "i < length xs \<Longrightarrow> c \<noteq> xs ! i \<Longrightarrow> xs[i := c] \<noteq> xs"
  by (metis nth_list_update_eq)

lemma hextable_G: "CHR ''G'' \<notin> set hextable"
  by (simp add: hextable_def)

section \<open>Signature verification\<close>

text \<open>
  Claim C1. For every claimed signature, body and client, \<^verbatim>\<open>VerifySignature\<close> returns
  true exactly when the signature equals, byte for byte and in full length, the
  lowercase hexadecimal HMAC-SHA1 digest of the body keyed with the client's API key.
  In particular the digest itself verifies, and the digest with any one character
  replaced by a different one does not.
\<close>

theorem VerifySignature_hmac_sha1_hex:
  "fst (VerifySignature signature body s) = (signature = hmac_sha1_hex body (ApiKey (self s)))
   \<and> fst (VerifySignature (hmac_sha1_hex body (ApiKey (self s))) body s)
   \<and> (\<forall>i c. i < length (hmac_sha1_hex body (ApiKey (self s)))
          \<longrightarrow> c \<noteq> hmac_sha1_hex body (ApiKey (self s)) ! i
          \<longrightarrow> \<not> fst (VerifySignature ((hmac_sha1_hex body (ApiKey (self s)))[i := c]) body s))"
  by (simp add: VerifySignature_def computeHmac1_hmac_sha1_hex list_update_differs)

theorem VerifySignature_hmac_sha1_hex_witness:
  "fst (VerifySignature (hmac_sha1_hex (bytes_of ''hello'') ''secret'') (bytes_of ''hello'')
          \<lparr>self = \<lparr>BotUsername = ''bot1'', ApiKey = ''secret'', Client = None, BaseUrl = ()\<rparr>,
           world = ()\<rparr>)
   \<and> \<not> fst (VerifySignature ((hmac_sha1_hex (bytes_of ''hello'') ''secret'')[0 := CHR ''G''])
          (bytes_of ''hello'')
          \<lparr>self = \<lparr>BotUsername = ''bot1'', ApiKey = ''secret'', Client = None, BaseUrl = ()\<rparr>,
           world = ()\<rparr>)"
proof -
  let ?sig = "hmac_sha1_hex (bytes_of ''hello'') ''secret''"
  let ?s = "\<lparr>self = \<lparr>BotUsername = ''bot1'', ApiKey = ''secret'', Client = None, BaseUrl = ()\<rparr>,
           world = ()\<rparr>"
  have len: "0 < length ?sig"
    using length_computeHmac1 [of "bytes_of ''hello''" "''secret''"]
    by (simp add: computeHmac1_hmac_sha1_hex)
  have "?sig ! 0 \<in> set hextable"
    using set_computeHmac1 [of "bytes_of ''hello''" "''secret''"] nth_mem [OF len]
    unfolding computeHmac1_hmac_sha1_hex by (rule subsetD)
  then have ne: "CHR ''G'' \<noteq> ?sig ! 0"
    using hextable_G by metis
  show ?thesis
    using VerifySignature_hmac_sha1_hex [of "?sig" "bytes_of ''hello''" ?s] len ne
    by simp
qed

text \<open>
  Claim C10. The computed digest is always 40 characters of lowercase hexadecimal,
  so a claimed signature that is not 40 characters of lowercase hexadecimal is
  rejected for every body and API key.
\<close>

theorem VerifySignature_rejects_non_digest:
  "is_lower_hex40 (computeHmac1 body (ApiKey (self s)))
   \<and> (\<not> is_lower_hex40 signature \<longrightarrow> \<not> fst (VerifySignature signature body s))"
  using is_lower_hex40_computeHmac1 [of body "ApiKey (self s)"]
  by (auto simp add: VerifySignature_def)

theorem VerifySignature_rejects_non_digest_witness:
  "\<not> is_lower_hex40 ''5112055C05F944F85755EFC5CD8970E194E9F45B''
   \<and> \<not> fst (VerifySignature ''5112055C05F944F85755EFC5CD8970E194E9F45B'' (bytes_of ''hello'')
          \<lparr>self = \<lparr>BotUsername = ''bot1'', ApiKey = ''secret'', Client = None, BaseUrl = ()\<rparr>,
           world = ()\<rparr>)
   \<and> \<not> is_lower_hex40 ''5112''
   \<and> \<not> fst (VerifySignature ''5112'' (bytes_of ''hello'')
          \<lparr>self = \<lparr>BotUsername = ''bot1'', ApiKey = ''secret'', Client = None, BaseUrl = ()\<rparr>,
           world = ()\<rparr>)"
proof -
  have a: "\<not> is_lower_hex40 ''5112055C05F944F85755EFC5CD8970E194E9F45B''"
    by (simp add: is_lower_hex40_def hextable_def)
  have b: "\<not> is_lower_hex40 ''5112''"
    by (simp add: is_lower_hex40_def)
  show ?thesis
    using a b
      VerifySignature_rejects_non_digest [of "bytes_of ''hello''" _ "''5112055C05F944F85755EFC5CD8970E194E9F45B''"]
      VerifySignature_rejects_non_digest [of "bytes_of ''hello''" _ "''5112''"]
    by blast
qed

section \<open>The state a method leaves\<close>

lemma snd_SetConfiguration:
  "snd (SetConfiguration nr d c s) =
     (case nr (self s) ''POST'' ConfigtUrl (Some (ConfigurationPtr c)) of
        Inl e \<Rightarrow> s
      | Inr req \<Rightarrow> snd (d (SetBasicAuth req (BotUsername (self s)) (ApiKey (self s)))
                          (Some (ConfigurationPtrVar c)) s))"
  by (simp add: SetConfiguration_def Let_def split: sum.splits prod.splits option.splits)

lemma snd_GetConfiguration:
  "snd (GetConfiguration nr d zero s) =
     (case nr (self s) ''GET'' ConfigtUrl None of
        Inl e \<Rightarrow> s
      | Inr req \<Rightarrow> snd (d (SetBasicAuth req (BotUsername (self s)) (ApiKey (self s)))
                          (Some (ConfigurationVar zero)) s))"
  by (simp add: GetConfiguration_def Let_def split: sum.splits prod.splits option.splits)

lemma snd_SendMessage:
  "snd (SendMessage nr d messages s) =
     (case nr (self s) ''POST'' SendMessageUrl (Some (MessagesVal (Messages messages))) of
        Inl e \<Rightarrow> s
      | Inr req \<Rightarrow> snd (d (SetBasicAuth req (BotUsername (self s)) (ApiKey (self s))) None s))"
  by (simp add: SendMessage_def Let_def split: sum.splits prod.splits option.splits)

lemma snd_BroadcastMessage:
  "snd (BroadcastMessage nr d messages s) =
     (case nr (self s) ''POST'' BroadcastUrl (Some (MessagesVal (Messages messages))) of
        Inl e \<Rightarrow> s
      | Inr req \<Rightarrow> snd (d (SetBasicAuth req (BotUsername (self s)) (ApiKey (self s))) None s))"
  by (simp add: BroadcastMessage_def Let_def split: sum.splits prod.splits option.splits)

lemma snd_GetUser:
  "snd (GetUser nr d zero username s) =
     (case nr (self s) ''GET'' (GetUserUrl @ username) None of
        Inl e \<Rightarrow> s
      | Inr req \<Rightarrow> snd (d (SetBasicAuth req (BotUsername (self s)) (ApiKey (self s)))
                          (Some (UserVar zero)) s))"
  by (simp add: GetUser_def Let_def split: sum.splits prod.splits option.splits)

lemma snd_CreateCode:
  "snd (CreateCode nr d zero sd s) =
     (case nr (self s) ''POST'' CodeUrl (Some (ScanDataPtr sd)) of
        Inl e \<Rightarrow> s
      | Inr req \<Rightarrow> snd (d (SetBasicAuth req (BotUsername (self s)) (ApiKey (self s)))
                          (Some (CodeVar zero)) s))"
  by (simp add: CreateCode_def Let_def split: sum.splits prod.splits option.splits)

lemma new_requests_recording: "new_requests s (snd (recording d req t s)) = [req]"
  by (simp add: new_requests_def recording_def submitted_def split: prod.splits)

lemma new_requests_same: "new_requests s s = []"
  by (simp add: new_requests_def)

lemma new_requests_sum:
  "new_requests s (case r of Inl e \<Rightarrow> s | Inr req \<Rightarrow> snd (recording d (f req) t s)) =
     (case r of Inl e \<Rightarrow> [] | Inr req \<Rightarrow> [f req])"
  by (simp add: new_requests_recording new_requests_same split: sum.splits)

lemma carries_SetBasicAuth:
  "carries_basic_auth k (SetBasicAuth req (BotUsername k) (ApiKey k))"
  by (simp add: carries_basic_auth_def SetBasicAuth_def basic_auth_header_def basicAuth_def)

lemma list_all_auth_sum:
  "list_all (carries_basic_auth k)
     (case r of Inl e \<Rightarrow> [] | Inr req \<Rightarrow> [SetBasicAuth req (BotUsername k) (ApiKey k)])"
  by (simp add: carries_SetBasicAuth split: sum.splits)

lemma URL_SetBasicAuth: "URL (SetBasicAuth req u p) = URL req"
  by (simp add: SetBasicAuth_def)

lemma Method_SetBasicAuth: "Method (SetBasicAuth req u p) = Method req"
  by (simp add: SetBasicAuth_def)

lemma Body_SetBasicAuth: "Body (SetBasicAuth req u p) = Body req"
  by (simp add: SetBasicAuth_def)

lemma self_do: "self (snd (do transport decode req t s)) = self s"
  by (simp add: do_def Let_def split: sum.splits option.splits)

lemma world_do: "world (snd (do transport decode req t s)) = world s @ [req]"
  by (simp add: do_def Let_def split: sum.splits option.splits)

section \<open>The constructor\<close>

lemma HasSuffix_slash: "HasSuffix s ''/'' = (s \<noteq> [] \<and> last s = CHR ''/'')"
proof (induction s rule: rev_induct)
  case Nil
  then show ?case by (simp add: HasSuffix_def)
next
  case (snoc x xs)
  then show ?case by (simp add: HasSuffix_def)
qed

text \<open>
  Claim C2. A base URL that ends in the path separator and that \<^verbatim>\<open>url.Parse\<close>
  accepts gives a client and no error. A base URL that does not end in the path
  separator gives no client, and the error whose message names the URL.
\<close>

theorem NewKikClient_trailing_slash:
  "(baseUrl \<noteq> [] \<and> last baseUrl = CHR ''/'' \<and> url_Parse baseUrl = Inr u \<longrightarrow>
      fst (NewKikClient url_Parse baseUrl botUsername apiKey httpClient heap) =
        (Some \<lparr>BotUsername = botUsername, ApiKey = apiKey,
               Client = (case httpClient of None \<Rightarrow> Some (length heap) | Some a \<Rightarrow> Some a),
               BaseUrl = u\<rparr>, None))
   \<and> (\<not> (baseUrl \<noteq> [] \<and> last baseUrl = CHR ''/'') \<longrightarrow>
      fst (NewKikClient url_Parse baseUrl botUsername apiKey httpClient heap) =
        (None, Some (Errorf (''BaseURL must have a trailing slash, but '' @ baseUrl
                             @ '' does not''))))"
  by (cases httpClient) (simp_all add: NewKikClient_def HasSuffix_slash)

theorem NewKikClient_trailing_slash_witness:
  "fst (NewKikClient (\<lambda>b. Inr b) ''https://api.kik.com/'' ''bot1'' ''secret'' (Some 0)
          [http_Client_zero]) =
     (Some \<lparr>BotUsername = ''bot1'', ApiKey = ''secret'', Client = Some 0,
            BaseUrl = ''https://api.kik.com/''\<rparr>, None)
   \<and> fst (NewKikClient (\<lambda>b. Inr b) ''https://api.kik.com'' ''bot1'' ''secret'' (Some 0)
          [http_Client_zero]) =
     (None, Some (Errorf ''BaseURL must have a trailing slash, but https://api.kik.com does not''))"
  using NewKikClient_trailing_slash [of "''https://api.kik.com/''" "\<lambda>b. Inr b"
      "''https://api.kik.com/''" "''bot1''" "''secret''" "Some 0" "[http_Client_zero]"]
    NewKikClient_trailing_slash [of "''https://api.kik.com''" "\<lambda>b. Inr b"
      "''https://api.kik.com''" "''bot1''" "''secret''" "Some 0" "[http_Client_zero]"]
  by simp

text \<open>
  Claim C9. Called with a nil handle, the constructor allocates the zero
  \<^verbatim>\<open>http.Client\<close> at the address one past the store it was given, an address that held
  no object before, and a client it returns carries that address. Every client the
  constructor returns has a handle that is not nil; a handle that was given is kept
  and nothing is allocated.
\<close>

theorem NewKikClient_transport:
  "snd (NewKikClient url_Parse baseUrl botUsername apiKey None heap) = heap @ [http_Client_zero]
   \<and> (fst (NewKikClient url_Parse baseUrl botUsername apiKey None heap) = (Some k, e) \<longrightarrow>
        Client k = Some (length heap)
        \<and> snd (NewKikClient url_Parse baseUrl botUsername apiKey None heap) ! length heap
            = http_Client_zero)
   \<and> (fst (NewKikClient url_Parse baseUrl botUsername apiKey httpClient heap) = (Some k', e') \<longrightarrow>
        Client k' \<noteq> None)
   \<and> (httpClient \<noteq> None \<longrightarrow>
        snd (NewKikClient url_Parse baseUrl botUsername apiKey httpClient heap) = heap
        \<and> (fst (NewKikClient url_Parse baseUrl botUsername apiKey httpClient heap) = (Some k', e')
             \<longrightarrow> Client k' = httpClient))"
  by (auto simp add: NewKikClient_def split: if_splits sum.splits)

theorem NewKikClient_transport_witness:
  "NewKikClient (\<lambda>b. Inr b) ''https://api.kik.com/'' ''bot1'' ''secret'' None [http_Client_zero] =
     ((Some \<lparr>BotUsername = ''bot1'', ApiKey = ''secret'', Client = Some 1,
             BaseUrl = ''https://api.kik.com/''\<rparr>, None), [http_Client_zero, http_Client_zero])
   \<and> NewKikClient (\<lambda>b. Inr b) ''https://api.kik.com/'' ''bot1'' ''secret'' (Some 0)
       [http_Client_zero] =
     ((Some \<lparr>BotUsername = ''bot1'', ApiKey = ''secret'', Client = Some 0,
             BaseUrl = ''https://api.kik.com/''\<rparr>, None), [http_Client_zero])
   \<and> Client \<lparr>BotUsername = ''bot1'', ApiKey = ''secret'', Client = Some (1 :: nat),
             BaseUrl = ''https://api.kik.com/''\<rparr> \<noteq> None
   \<and> Client \<lparr>BotUsername = ''bot1'', ApiKey = ''secret'', Client = Some (0 :: nat),
             BaseUrl = ''https://api.kik.com/''\<rparr> = Some 0"
proof -
  let ?k1 = "\<lparr>BotUsername = ''bot1'', ApiKey = ''secret'', Client = Some (1 :: nat),
             BaseUrl = ''https://api.kik.com/''\<rparr>"
  let ?k0 = "\<lparr>BotUsername = ''bot1'', ApiKey = ''secret'', Client = Some (0 :: nat),
             BaseUrl = ''https://api.kik.com/''\<rparr>"
  have nil: "NewKikClient (\<lambda>b. Inr b) ''https://api.kik.com/'' ''bot1'' ''secret'' None
      [http_Client_zero] = ((Some ?k1, None), [http_Client_zero, http_Client_zero])"
    by (simp add: NewKikClient_def HasSuffix_def)
  have given: "NewKikClient (\<lambda>b. Inr b) ''https://api.kik.com/'' ''bot1'' ''secret'' (Some 0)
      [http_Client_zero] = ((Some ?k0, None), [http_Client_zero])"
    by (simp add: NewKikClient_def HasSuffix_def)
  show ?thesis
    using nil given
      NewKikClient_transport [of "\<lambda>b. Inr b" "''https://api.kik.com/''" "''bot1''"
        "''secret''" "[http_Client_zero]" ?k1 None None ?k1 None]
      NewKikClient_transport [of "\<lambda>b. Inr b" "''https://api.kik.com/''" "''bot1''"
        "''secret''" "[http_Client_zero]" ?k1 None "Some 0" ?k0 None]
    by simp
qed



section \<open>The executor of the specification\<close>

text \<open>
  Claim C4. When the transport answers with a status code outside 200..299, the
  executor returns the \<open>StatusError\<close> that carries this code and the raw body of
  the response, and leaves the decode target as it was. The decoder has no part in
  the outcome: the result is the same for every decoder.
\<close>

theorem do_status_error:
  "transport (Client (self s)) req = Inr resp
   \<and> \<not> (200 \<le> StatusCode resp \<and> StatusCode resp \<le> 299) \<longrightarrow>
     do transport decode req target s =
       ((Some (StatusError (StatusCode resp) (ResponseBody resp)), target),
        s\<lparr>world := world s @ [req]\<rparr>)
     \<and> do transport decode req target s = do transport decode' req target s"
  by (simp add: do_def Let_def)

theorem do_status_error_witness:
  \<open>do (\<lambda>h r. Inr \<lparr>StatusCode = 404, ResponseBody = ''{"error":"no such user"}''\<rparr>)
      (\<lambda>b t. Inr (UserVar ''decoded''))
      \<lparr>Method = ''GET'', URL = ''https://api.kik.com/v1/user/alice'', Header = Map.empty,
       Body = None\<rparr>
      (Some (UserVar ''untouched'' :: (unit, string, unit) target))
      \<lparr>self = \<lparr>BotUsername = ''bot1'', ApiKey = ''secret'', Client = Some 0,
               BaseUrl = ''https://api.kik.com/''\<rparr>,
       world = []\<rparr>
    = ((Some (StatusError 404 ''{"error":"no such user"}''), Some (UserVar ''untouched'')),
       \<lparr>self = \<lparr>BotUsername = ''bot1'', ApiKey = ''secret'', Client = Some 0,
                BaseUrl = ''https://api.kik.com/''\<rparr>,
        world = [\<lparr>Method = ''GET'', URL = ''https://api.kik.com/v1/user/alice'',
                  Header = Map.empty, Body = None\<rparr>]\<rparr>)\<close>
proof -
  let ?resp = \<open>\<lparr>StatusCode = 404, ResponseBody = ''{"error":"no such user"}''\<rparr>\<close>
  let ?tr = \<open>\<lambda>(h :: nat option) (r :: Request). (Inr ?resp :: error + Response)\<close>
  let ?req = \<open>\<lparr>Method = ''GET'', URL = ''https://api.kik.com/v1/user/alice'',
               Header = Map.empty, Body = None\<rparr>\<close>
  let ?s = \<open>\<lparr>self = \<lparr>BotUsername = ''bot1'', ApiKey = ''secret'', Client = Some 0,
                     BaseUrl = ''https://api.kik.com/''\<rparr>,
             world = ([] :: Request list)\<rparr>\<close>
  have pre: \<open>?tr (Client (self ?s)) ?req = Inr ?resp
      \<and> \<not> (200 \<le> StatusCode ?resp \<and> StatusCode ?resp \<le> 299)\<close>
    by simp
  show ?thesis
    using do_status_error [of ?tr ?s ?req ?resp \<open>\<lambda>b t. Inr (UserVar ''decoded'')\<close>
        \<open>Some (UserVar ''untouched'' :: (unit, string, unit) target)\<close> \<open>\<lambda>b t. Inr t\<close>,
        THEN mp, OF pre]
    by simp
qed

section \<open>The six request methods\<close>

text \<open>
  Claim C5. When the builder returns an error, every method returns this error and
  leaves the state as it found it, whatever the executor is: the executor is not
  run, so no request is submitted.
\<close>

theorem build_error_returned:
  "(nr (self s) ''POST'' ConfigtUrl (Some (ConfigurationPtr c)) = Inl err \<longrightarrow>
      SetConfiguration nr d c s = ((Some err, c), s))
   \<and> (nr (self s) ''GET'' ConfigtUrl None = Inl err \<longrightarrow>
      GetConfiguration nr d zc s = ((None, Some err), s))
   \<and> (nr (self s) ''POST'' SendMessageUrl (Some (MessagesVal (Messages messages))) = Inl err \<longrightarrow>
      SendMessage nr d messages s = (Some err, s))
   \<and> (nr (self s) ''POST'' BroadcastUrl (Some (MessagesVal (Messages messages))) = Inl err \<longrightarrow>
      BroadcastMessage nr d messages s = (Some err, s))
   \<and> (nr (self s) ''GET'' (GetUserUrl @ username) None = Inl err \<longrightarrow>
      GetUser nr d zr username s = ((None, Some err), s))
   \<and> (nr (self s) ''POST'' CodeUrl (Some (ScanDataPtr sd)) = Inl err \<longrightarrow>
      CreateCode nr d zd sd s = ((None, Some err), s))"
  by (simp add: SetConfiguration_def GetConfiguration_def SendMessage_def BroadcastMessage_def
      GetUser_def CreateCode_def)

theorem build_error_returned_witness:
  "SetConfiguration failing_builder (recording (do scenario_transport scenario_decode))
      (Some ()) scenario_state
     = ((Some (EncodeError (Foreign ''json: unsupported type'')), Some ()), scenario_state)
   \<and> GetConfiguration failing_builder (recording (do scenario_transport scenario_decode))
      () scenario_state
     = ((None, Some (EncodeError (Foreign ''json: unsupported type''))), scenario_state)
   \<and> SendMessage failing_builder (recording (do scenario_transport scenario_decode))
      (Some [()]) scenario_state
     = (Some (EncodeError (Foreign ''json: unsupported type'')), scenario_state)
   \<and> BroadcastMessage failing_builder (recording (do scenario_transport scenario_decode))
      (Some [()]) scenario_state
     = (Some (EncodeError (Foreign ''json: unsupported type'')), scenario_state)
   \<and> GetUser failing_builder (recording (do scenario_transport scenario_decode))
      [] ''alice'' scenario_state
     = ((None, Some (EncodeError (Foreign ''json: unsupported type''))), scenario_state)
   \<and> CreateCode failing_builder (recording (do scenario_transport scenario_decode))
      () (Some ()) scenario_state
     = ((None, Some (EncodeError (Foreign ''json: unsupported type''))), scenario_state)
   \<and> submitted scenario_state = []"
  using build_error_returned [where nr = failing_builder and s = scenario_state
      and d = "recording (do scenario_transport scenario_decode)"
      and err = "EncodeError (Foreign ''json: unsupported type'')"
      and c = "Some ()" and zc = "()" and messages = "Some [()]" and zr = "[]"
      and username = "''alice''" and zd = "()" and sd = "Some ()"]
  by (simp add: failing_builder_def submitted_def scenario_state_def)

lemma scenario_GetUser_requests:
  "new_requests scenario_state
      (snd (GetUser scenario_builder (recording (do scenario_transport scenario_decode))
              [] ''alice'' scenario_state))
     = [SetBasicAuth \<lparr>Method = ''GET'', URL = ''https://api.kik.com//v1/user/alice'',
                      Header = Map.empty, Body = None\<rparr> ''bot1'' ''secret'']"
  by (simp add: snd_GetUser new_requests_recording scenario_builder_def
      newRequest_def GetUserUrl_def scenario_state_def scenario_client_def)

lemma basicAuth_scenario: "base64_EncodeToString (bytes_of ''bot1:secret'') = ''Ym90MTpzZWNyZXQ=''"
  by code_simp

text \<open>
  Claim C3. For every builder and every executor, each request that one of the six
  methods hands to the executor carries the header \<open>Authorization\<close> with the single
  value \<open>Basic\<close> followed by the base64 form of the client's \<open>BotUsername:ApiKey\<close>.
\<close>

theorem requests_carry_basic_auth:
  "list_all (carries_basic_auth (self s))
     (new_requests s (snd (SetConfiguration nr (recording d) c s)))
   \<and> list_all (carries_basic_auth (self s))
     (new_requests s (snd (GetConfiguration nr (recording d) zc s)))
   \<and> list_all (carries_basic_auth (self s))
     (new_requests s (snd (SendMessage nr (recording d) messages s)))
   \<and> list_all (carries_basic_auth (self s))
     (new_requests s (snd (BroadcastMessage nr (recording d) messages s)))
   \<and> list_all (carries_basic_auth (self s))
     (new_requests s (snd (GetUser nr (recording d) zr username s)))
   \<and> list_all (carries_basic_auth (self s))
     (new_requests s (snd (CreateCode nr (recording d) zd sd s)))"
  by (simp only: snd_SetConfiguration snd_GetConfiguration snd_SendMessage snd_BroadcastMessage
      snd_GetUser snd_CreateCode new_requests_sum list_all_auth_sum simp_thms)

theorem requests_carry_basic_auth_witness:
  "map (\<lambda>r. Header r ''Authorization'')
     (new_requests scenario_state
        (snd (GetUser scenario_builder (recording (do scenario_transport scenario_decode))
                [] ''alice'' scenario_state)))
   = [Some [''Basic Ym90MTpzZWNyZXQ='']]"
proof -
  let ?new = "new_requests scenario_state
        (snd (GetUser scenario_builder (recording (do scenario_transport scenario_decode))
                [] ''alice'' scenario_state))"
  have "list_all (carries_basic_auth (self scenario_state)) ?new"
    using requests_carry_basic_auth [where nr = scenario_builder and s = scenario_state
        and d = "do scenario_transport scenario_decode" and zr = "[]" and username = "''alice''"
        and c = None and zc = "()" and messages = None and zd = "()" and sd = None]
    by blast
  moreover have "carries_basic_auth (self scenario_state) =
      (\<lambda>r. Header r ''Authorization'' = Some [''Basic Ym90MTpzZWNyZXQ=''])"
    by (rule ext) (simp add: carries_basic_auth_def basic_auth_header_def scenario_state_def
        scenario_client_def basicAuth_scenario)
  ultimately have
    "list_all (\<lambda>r. Header r ''Authorization'' = Some [''Basic Ym90MTpzZWNyZXQ='']) ?new"
    by simp
  then show ?thesis
    by (simp add: scenario_GetUser_requests)
qed

text \<open>
  Claim C8. No method assigns to a field of the client: if the executor leaves the
  client struct as it is, then after each of the six methods the struct (bot name,
  API key, base URL and transport handle) is the one before the call. Signature
  verification leaves the whole state unchanged.
\<close>

theorem client_unchanged:
  "(\<forall>req t s. self (snd (d req t s)) = self s) \<longrightarrow>
     self (snd (SetConfiguration nr d c s)) = self s
     \<and> self (snd (GetConfiguration nr d zc s)) = self s
     \<and> self (snd (SendMessage nr d messages s)) = self s
     \<and> self (snd (BroadcastMessage nr d messages s)) = self s
     \<and> self (snd (GetUser nr d zr username s)) = self s
     \<and> self (snd (CreateCode nr d zd sd s)) = self s
     \<and> snd (VerifySignature signature body s) = s"
proof
  assume pres: "\<forall>req t s. self (snd (d req t s)) = self s"
  show "self (snd (SetConfiguration nr d c s)) = self s
     \<and> self (snd (GetConfiguration nr d zc s)) = self s
     \<and> self (snd (SendMessage nr d messages s)) = self s
     \<and> self (snd (BroadcastMessage nr d messages s)) = self s
     \<and> self (snd (GetUser nr d zr username s)) = self s
     \<and> self (snd (CreateCode nr d zd sd s)) = self s
     \<and> snd (VerifySignature signature body s) = s"
    by (simp add: snd_SetConfiguration snd_GetConfiguration snd_SendMessage
        snd_BroadcastMessage snd_GetUser snd_CreateCode VerifySignature_def pres
        split: sum.splits)
qed

theorem client_unchanged_witness:
  "self (snd (SetConfiguration scenario_builder (do scenario_transport scenario_decode)
               (Some ()) \<lparr>self = scenario_client, world = []\<rparr>)) = scenario_client
   \<and> self (snd (GetConfiguration scenario_builder (do scenario_transport scenario_decode)
               () \<lparr>self = scenario_client, world = []\<rparr>)) = scenario_client
   \<and> self (snd (SendMessage scenario_builder (do scenario_transport scenario_decode)
               (Some [()]) \<lparr>self = scenario_client, world = []\<rparr>)) = scenario_client
   \<and> self (snd (BroadcastMessage scenario_builder (do scenario_transport scenario_decode)
               (Some [()]) \<lparr>self = scenario_client, world = []\<rparr>)) = scenario_client
   \<and> self (snd (GetUser scenario_builder (do scenario_transport scenario_decode)
               [] ''alice'' \<lparr>self = scenario_client, world = []\<rparr>)) = scenario_client
   \<and> self (snd (CreateCode scenario_builder (do scenario_transport scenario_decode)
               () (Some ()) \<lparr>self = scenario_client, world = []\<rparr>)) = scenario_client
   \<and> snd (VerifySignature ''5112055c05f944f85755efc5cd8970e194e9f45b'' (bytes_of ''hello'')
             \<lparr>self = scenario_client, world = ([] :: Request list)\<rparr>)
       = \<lparr>self = scenario_client, world = []\<rparr>"
proof -
  have pres: "\<forall>req t (s :: (string, Request list) state).
      self (snd (do scenario_transport scenario_decode req t s)) = self s"
    by (simp add: self_do)
  show ?thesis
    using client_unchanged [where d = "do scenario_transport scenario_decode"
        and nr = scenario_builder and s = "\<lparr>self = scenario_client, world = []\<rparr>"
        and c = "Some ()" and zc = "()" and messages = "Some [()]" and zr = "[]"
        and username = "''alice''" and zd = "()" and sd = "Some ()"
        and signature = "''5112055c05f944f85755efc5cd8970e194e9f45b''"
        and body = "bytes_of ''hello''", THEN mp, OF pres]
    by simp
qed




lemma new_requests_SendMessage:
  "new_requests s (snd (SendMessage nr (recording d) messages s)) =
     (case nr (self s) ''POST'' SendMessageUrl (Some (MessagesVal (Messages messages))) of
        Inl e \<Rightarrow> []
      | Inr req \<Rightarrow> [SetBasicAuth req (BotUsername (self s)) (ApiKey (self s))])"
  by (simp add: snd_SendMessage new_requests_sum)

lemma newRequest_Messages:
  \<open>newRequest url_String (json_payload enc_c enc_m enc_s) k method relativePath
      (Some (MessagesVal (Messages messages))) =
    (case json_elements enc_m (message_list (Messages messages)) of
       Inl cause \<Rightarrow> Inl (EncodeError cause)
     | Inr js \<Rightarrow>
         Inr \<lparr>Method = method, URL = url_String (BaseUrl k) @ relativePath,
              Header = Map.empty,
              Body = Some (''{"messages":['' @ join_commas js @ '']}'')\<rparr>)\<close>
  by (simp add: newRequest_def json_payload_def json_Messages_def split: sum.splits)

lemma message_list_empty:
  "messages = None \<or> messages = Some [] \<Longrightarrow> message_list (Messages messages) = []"
  by (auto simp add: message_list_def)

text \<open>
  Claim C7. With the builder and the \<open>messages\<close> envelope of the specification,
  \<^verbatim>\<open>SendMessage\<close> called with an empty message list submits one \<^verbatim>\<open>POST\<close> request, to a
  URL that ends in \<^verbatim>\<open>/v1/message\<close>, whose body is exactly \<^verbatim>\<open>{"messages":[]}\<close>; for every
  list the request that is submitted has a body. For every builder, what the method
  hands to the executor is the builder's request for \<^verbatim>\<open>POST\<close>, \<^verbatim>\<open>/v1/message\<close> and the
  payload \<^verbatim>\<open>Messages{messages}\<close>, which is present for every list.
\<close>

theorem SendMessage_body:
  \<open>(messages = None \<or> messages = Some [] \<longrightarrow>
        map Method (new_requests s
          (snd (SendMessage (newRequest url_String (json_payload enc_c enc_m enc_s))
                  (recording d) messages s))) = [''POST'']
        \<and> map Body (new_requests s
          (snd (SendMessage (newRequest url_String (json_payload enc_c enc_m enc_s))
                  (recording d) messages s))) = [Some ''{"messages":[]}'']
        \<and> list_all (\<lambda>r. suffix SendMessageUrl (URL r)) (new_requests s
          (snd (SendMessage (newRequest url_String (json_payload enc_c enc_m enc_s))
                  (recording d) messages s))))
   \<and> list_all (\<lambda>r. Body r \<noteq> None) (new_requests s
       (snd (SendMessage (newRequest url_String (json_payload enc_c enc_m enc_s))
               (recording d) messages s)))
   \<and> new_requests s (snd (SendMessage nr (recording d) messages s)) =
       (case nr (self s) ''POST'' SendMessageUrl (Some (MessagesVal (Messages messages))) of
          Inl e \<Rightarrow> []
        | Inr req \<Rightarrow> [SetBasicAuth req (BotUsername (self s)) (ApiKey (self s))])\<close>
proof (intro conjI impI)
  assume empty: "messages = None \<or> messages = Some []"
  note run = new_requests_SendMessage newRequest_Messages message_list_empty [OF empty]
  show \<open>map Method (new_requests s
          (snd (SendMessage (newRequest url_String (json_payload enc_c enc_m enc_s))
                  (recording d) messages s))) = [''POST'']\<close>
    by (simp add: run Method_SetBasicAuth)
  show \<open>map Body (new_requests s
          (snd (SendMessage (newRequest url_String (json_payload enc_c enc_m enc_s))
                  (recording d) messages s))) = [Some ''{"messages":[]}'']\<close>
    by (simp add: run Body_SetBasicAuth)
  show \<open>list_all (\<lambda>r. suffix SendMessageUrl (URL r)) (new_requests s
          (snd (SendMessage (newRequest url_String (json_payload enc_c enc_m enc_s))
                  (recording d) messages s)))\<close>
    by (simp add: run URL_SetBasicAuth suffix_def)
next
  show \<open>list_all (\<lambda>r. Body r \<noteq> None) (new_requests s
       (snd (SendMessage (newRequest url_String (json_payload enc_c enc_m enc_s))
               (recording d) messages s)))\<close>
    by (simp add: new_requests_SendMessage newRequest_Messages Body_SetBasicAuth
        split: sum.splits)
next
  show "new_requests s (snd (SendMessage nr (recording d) messages s)) =
       (case nr (self s) ''POST'' SendMessageUrl (Some (MessagesVal (Messages messages))) of
          Inl e \<Rightarrow> []
        | Inr req \<Rightarrow> [SetBasicAuth req (BotUsername (self s)) (ApiKey (self s))])"
    by (rule new_requests_SendMessage)
qed

theorem SendMessage_body_witness:
  \<open>map Method (new_requests scenario_state
       (snd (SendMessage scenario_builder (recording (do scenario_transport scenario_decode))
               (Some []) scenario_state))) = [''POST'']
   \<and> map Body (new_requests scenario_state
       (snd (SendMessage scenario_builder (recording (do scenario_transport scenario_decode))
               (Some []) scenario_state))) = [Some ''{"messages":[]}'']
   \<and> map Body (new_requests scenario_state
       (snd (SendMessage scenario_builder (recording (do scenario_transport scenario_decode))
               None scenario_state))) = [Some ''{"messages":[]}'']\<close>
proof -
  have nonnil: \<open>(Some [] :: unit list option) = None \<or> (Some [] :: unit list option) = Some []\<close>
    by simp
  have nil: \<open>(None :: unit list option) = None \<or> (None :: unit list option) = Some []\<close>
    by simp
  note inst = SendMessage_body [where url_String = \<open>\<lambda>u :: string. u\<close>
        and enc_c = \<open>\<lambda>c :: unit option. Inr ''{}''\<close> and enc_m = \<open>\<lambda>m :: unit. Inr ''{}''\<close>
        and enc_s = \<open>\<lambda>sd :: unit option. Inr ''{}''\<close>
        and d = \<open>do scenario_transport scenario_decode\<close> and s = scenario_state,
        folded scenario_builder_def]
  show ?thesis
    using inst [where messages = \<open>Some []\<close>, THEN conjunct1, THEN mp, OF nonnil]
      inst [where messages = None, THEN conjunct1, THEN mp, OF nil]
    by blast
qed

end
